theory Spec2Isabelle
  imports Complex_Main "HOL-Library.Word"
begin

unbundle bit_operations_syntax

section \<open>Machine types, failures and buffers\<close>

text \<open>
  A shallow embedding of \<^verbatim>\<open>src/renderer/atlas/AtlasEngine.cpp\<close>: the frame-facing
  entry points of the engine, the line flush and the shaping helpers.

  Fixed-width integers are words (\<open>u16\<close> columns and row numbers, \<open>u32\<close> text indices,
  the signed 16-bit scroll offset read with \<open>sint\<close>); \<open>size_t\<close> quantities (buffer sizes,
  loop counters over them) are natural numbers. The type \<open>f32\<close> stands for the source's
  \<^verbatim>\<open>f32\<close>: DIP quantities are idealised as real numbers, so the rounding of single
  precision arithmetic is outside the model. An \<^verbatim>\<open>HRESULT\<close> is a signed integer that
  reports a failure when it is negative.
\<close>

type_synonym u8 = "8 word"
type_synonym u16 = "16 word"
type_synonym i16 = "16 word"
type_synonym u32 = "32 word"
type_synonym f32 = real
type_synonym hresult = int
type_synonym wchar_t = "16 word"

text \<open>A font face is a COM object; only its identity matters here.\<close>

type_synonym fontFace = nat

definition S_OK :: hresult where
  "S_OK = 0"

definition FAILED :: "hresult \<Rightarrow> bool" where
  "FAILED hr = (hr < 0)"

text \<open>\<^verbatim>\<open>HRESULT_FROM_WIN32(ERROR_INSUFFICIENT_BUFFER)\<close>, that is \<^verbatim>\<open>0x8007007A\<close>.\<close>

definition E_NOT_SUFFICIENT_BUFFER :: hresult where
  "E_NOT_SUFFICIENT_BUFFER = - 2147024774"

text \<open>
  What can end a call early. \<open>Failed hr\<close> is the exception of \<^verbatim>\<open>THROW_IF_FAILED(hr)\<close>,
  \<open>LengthError\<close> the \<^verbatim>\<open>std::length_error\<close> of a vector insert whose count does not
  fit, \<open>NarrowingError\<close> the exception of \<^verbatim>\<open>gsl::narrow\<close>: these three are C++
  exceptions and unwind the stack. \<open>ContractViolation\<close> is a failed \<^verbatim>\<open>Expects\<close>
  (fail fast), \<open>OutOfRange\<close> an access outside a buffer and \<open>NullDereference\<close> a call
  through an empty COM pointer: undefined behaviour in the source, no exception.
\<close>

datatype error =
    Failed hresult
  | LengthError
  | NarrowingError
  | ContractViolation
  | OutOfRange
  | NullDereference

fun is_exception :: "error \<Rightarrow> bool" where
  "is_exception (Failed hr) = True"
| "is_exception LengthError = True"
| "is_exception NarrowingError = True"
| "is_exception ContractViolation = False"
| "is_exception OutOfRange = False"
| "is_exception NullDereference = False"

text \<open>
  The outcome of a piece of code that mutates a state: the state it reached, and the
  failure that stopped it if there was one. Nothing is rolled back on a failure.
\<close>

datatype 's res = Ok 's | Fail error 's

fun state_of :: "'s res \<Rightarrow> 's" where
  "state_of (Ok s) = s"
| "state_of (Fail e s) = s"


text \<open>Reading element \<open>i\<close> of a buffer or vector; the source does not check the index.\<close>

definition read_at :: "'a list \<Rightarrow> nat \<Rightarrow> error + 'a" where
  "read_at xs i = (if i < length xs then Inr (xs ! i) else Inl OutOfRange)"

text \<open>
  The Font Shaping Service writes its results to the front of a caller-supplied buffer
  and leaves the rest of the buffer as it was.
\<close>

definition store :: "'a list \<Rightarrow> 'a list \<Rightarrow> 'a list" where
  "store out buf = take (length buf) out @ drop (length out) buf"

section \<open>Data model\<close>

text \<open>
  Modelled from the spec: the settings snapshot is declared in a header that is not part
  of the sources. Sub-objects are shared copy-on-write and compared by identity; the
  identity is a generation number here, which every write access bumps. The content of the
  target sub-object (the window handle) is not modelled.
\<close>

record FontSettings =
  cellSize :: "u16 \<times> u16"
  fontSizeInDIP :: f32
  dpi :: u16
  fontName :: string

record CursorSettings =
  cursorColor :: u32
  cursorType :: u16
  heightPercentage :: u8

record Settings =
  generation :: nat
  target :: nat
  fontGeneration :: nat
  font :: FontSettings
  cursorGeneration :: nat
  cursor :: CursorSettings
  miscGeneration :: nat
  backgroundColor :: u32
  cellCount :: "u16 \<times> u16"

text \<open>
  Modelled from the spec: the row record and its parts are declared in a header that is
  not part of the sources (section 3 of the spec, Row). The pixel bounds are called
  \<open>topPx\<close> and \<open>bottomPx\<close> here.
\<close>

record FontMapping =
  fontFace :: fontFace
  emSize :: f32
  glyphRangeStart :: u32
  glyphRangeEnd :: u32

record GridLineRange =
  lineKinds :: nat
  color :: u32
  colStart :: u16
  colEnd :: u16

record ShapedRow =
  mappings :: "FontMapping list"
  glyphIndices :: "u16 list"
  glyphAdvances :: "f32 list"
  glyphOffsets :: "(f32 \<times> f32) list"
  colors :: "u32 list"
  gridLineRanges :: "GridLineRange list"
  selectionFrom :: u16
  selectionTo :: u16
  topPx :: int
  bottomPx :: int

text \<open>
  Modelled from the spec: \<^verbatim>\<open>ShapedRow::clear(y, cellHeight)\<close> empties the glyph, advance,
  offset, colour, mapping and decoration sequences and resets the pixel bounds to the
  row's own cell line.
\<close>

definition clear :: "u16 \<Rightarrow> u16 \<Rightarrow> ShapedRow" where
  "clear y cellHeight =
     \<lparr> mappings = [], glyphIndices = [], glyphAdvances = [], glyphOffsets = [],
       colors = [], gridLineRanges = [], selectionFrom = 0, selectionTo = 0,
       topPx = uint y * uint cellHeight,
       bottomPx = uint y * uint cellHeight + uint cellHeight \<rparr>"

text \<open>One result of the script analysis (\<^verbatim>\<open>TextAnalysisSinkResult\<close>).\<close>

record TextAnalysisSinkResult =
  textPosition :: u32
  textLength :: u32
  script :: u16
  shapes :: u8
  bidiLevel :: u8

text \<open>
  The api-facing state \<^verbatim>\<open>_api\<close>. The scratch buffers \<^verbatim>\<open>textProps\<close> and
  \<^verbatim>\<open>glyphProps\<close> hold values only the Font Shaping Service reads; the model keeps
  their sizes.
\<close>

record ApiState =
  api_s :: Settings
  api_invalidatedCursorArea :: "u16 \<times> u16 \<times> u16 \<times> u16"
  api_invalidatedRows :: "u16 \<times> u16"
  api_scrollOffset :: i16
  api_dirtyRect :: "int \<times> int \<times> int \<times> int"
  api_bufferLine :: "wchar_t list"
  api_bufferLineColumn :: "u16 list"
  api_colorsForeground :: "u32 list"
  api_currentColor :: "u32 \<times> u32"
  api_attributes :: "bool \<times> bool"
  api_lastPaintBufferLineCoord :: "u16 \<times> u16"
  api_analysisResults :: "TextAnalysisSinkResult list"
  api_clusterMap :: "u16 list"
  api_textProps :: nat
  api_glyphIndices :: "u16 list"
  api_glyphProps :: nat
  api_glyphAdvances :: "f32 list"
  api_glyphOffsets :: "(f32 \<times> f32) list"
  api_replacementCharacterFontFace :: "fontFace option"
  api_replacementCharacterGlyphIndex :: u16
  api_replacementCharacterLookedUp :: bool

text \<open>The paint-facing state \<^verbatim>\<open>_p\<close>; \<open>p_cellSizeDIP\<close> is \<^verbatim>\<open>_p.d.font.cellSizeDIP\<close>.\<close>

record RenderingPayload =
  p_s :: Settings
  p_cellSizeDIP :: "f32 \<times> f32"
  p_rows :: "ShapedRow list"
  p_backgroundBitmap :: "u32 list"
  p_dirtyRect :: "int \<times> int \<times> int \<times> int"
  p_cursorRect :: "u16 \<times> u16 \<times> u16 \<times> u16"
  p_scrollOffset :: i16

section \<open>Shaping a simple segment\<close>

text \<open>
  One iteration of the loop over a simple segment in \<^verbatim>\<open>_flushBufferLine\<close>: the glyph
  of character \<open>idx + i\<close>, which the complexity analysis left in the scratch buffer at
  \<open>i\<close>, is appended to the row with the advance of the columns it covers.
\<close>

definition simpleGlyph :: "RenderingPayload \<Rightarrow> ApiState \<Rightarrow> u32 \<Rightarrow> nat \<Rightarrow> ShapedRow \<Rightarrow> ShapedRow res" where
  "simpleGlyph p api idx i row =
     (case read_at (api_bufferLineColumn api) (unat idx + i) of
        Inl e \<Rightarrow> Fail e row
      | Inr col1 \<Rightarrow>
     (case read_at (api_colorsForeground api) (unat col1) of
        Inl e \<Rightarrow> Fail e row
      | Inr fg \<Rightarrow>
     (case read_at (api_bufferLineColumn api) (unat idx + i + 1) of
        Inl e \<Rightarrow> Fail e row
      | Inr col2 \<Rightarrow>
     (case read_at (api_glyphIndices api) i of
        Inl e \<Rightarrow> Fail e row
      | Inr g \<Rightarrow>
          Ok (row\<lparr> glyphIndices := glyphIndices row @ [g],
                   glyphAdvances := glyphAdvances row
                     @ [real_of_int (uint col2 - uint col1) * fst (p_cellSizeDIP p)],
                   glyphOffsets := glyphOffsets row @ [(0, 0)],
                   colors := colors row @ [fg] \<rparr>)))))"

fun simpleRun :: "RenderingPayload \<Rightarrow> ApiState \<Rightarrow> u32 \<Rightarrow> nat list \<Rightarrow> ShapedRow \<Rightarrow> ShapedRow res" where
  "simpleRun p api idx [] row = Ok row"
| "simpleRun p api idx (i # is) row =
     (case simpleGlyph p api idx i row of
        Ok row' \<Rightarrow> simpleRun p api idx is row'
      | Fail e row' \<Rightarrow> Fail e row')"

section \<open>The Font Shaping Service\<close>

text \<open>
  The service is a black box (DirectWrite in the source). Each of its calls is a function
  from what the call is given to what it reports: the \<^verbatim>\<open>HRESULT\<close> first, then the
  values it writes through its output parameters. The font settings stand for the base
  font collection, family name, weight and axis values handed to \<^verbatim>\<open>MapCharacters\<close>
  (which also covers the creation of the face from the mapped font); the typographic
  features handed to \<^verbatim>\<open>GetGlyphs\<close> and \<^verbatim>\<open>GetGlyphPlacements\<close> are fixed with
  the service. \<open>GetGlyphs\<close> returns the cluster map, the glyph indices and the actual glyph
  count; its last argument is \<^verbatim>\<open>maxGlyphCount\<close>.
\<close>

record Shaper =
  MapCharacters :: "FontSettings \<Rightarrow> bool \<times> bool \<Rightarrow> wchar_t list \<Rightarrow> hresult \<times> u32 \<times> f32 \<times> fontFace option"
  GetTextComplexity :: "wchar_t list \<Rightarrow> fontFace \<Rightarrow> hresult \<times> bool \<times> u32 \<times> u16 list"
  AnalyzeScript :: "wchar_t list \<Rightarrow> u32 \<Rightarrow> u32 \<Rightarrow> hresult \<times> TextAnalysisSinkResult list"
  GetGlyphs :: "wchar_t list \<Rightarrow> fontFace \<Rightarrow> TextAnalysisSinkResult \<Rightarrow> u32 \<Rightarrow> hresult \<times> u16 list \<times> u16 list \<times> u32"
  GetGlyphPlacements :: "wchar_t list \<Rightarrow> u16 list \<Rightarrow> u16 list \<Rightarrow> u32 \<Rightarrow> fontFace \<Rightarrow> f32 \<Rightarrow> TextAnalysisSinkResult \<Rightarrow> hresult \<times> f32 list \<times> (f32 \<times> f32) list"
  GetGlyphIndices :: "fontFace \<Rightarrow> u32 \<Rightarrow> hresult \<times> u16"

text \<open>
  The text handed to the service: \<open>len\<close> code units of the staging buffer from \<open>pos\<close>.
  The source passes a pointer and a length; a range that leaves the buffer is read out
  of range.
\<close>

definition slice :: "'a list \<Rightarrow> nat \<Rightarrow> nat \<Rightarrow> error + 'a list" where
  "slice xs pos len = (if pos + len \<le> length xs then Inr (take len (drop pos xs)) else Inl OutOfRange)"

text \<open>\<^verbatim>\<open>_mapCharacters\<close>: the attributes are the pair (bold, italic).\<close>

definition mapCharacters :: "Shaper \<Rightarrow> RenderingPayload \<Rightarrow> ApiState \<Rightarrow> wchar_t list \<Rightarrow> error + (u32 \<times> f32 \<times> fontFace option)" where
  "mapCharacters sh p api text =
     (case MapCharacters sh (font (p_s p)) (api_attributes api) text of
        (hr, mappedLength, scale, mappedFontFace) \<Rightarrow>
          if FAILED hr then Inl (Failed hr) else Inr (mappedLength, scale, mappedFontFace))"

section \<open>The replacement fallback\<close>

text \<open>
  The first part of \<^verbatim>\<open>_mapReplacementCharacter\<close>: the lookup of a face and a glyph
  for U+FFFD. \<^verbatim>\<open>put()\<close> empties the cached pointer before the service is called.
\<close>

definition lookupReplacementCharacter :: "Shaper \<Rightarrow> RenderingPayload \<Rightarrow> ApiState \<Rightarrow> ApiState res" where
  "lookupReplacementCharacter sh p api =
     (case mapCharacters sh p api [0xFFFD] of
        Inl e \<Rightarrow> Fail e (api\<lparr> api_replacementCharacterFontFace := None \<rparr>)
      | Inr (mappedLength, scale, face) \<Rightarrow>
          if mappedLength = 1 then
            (case face of
               None \<Rightarrow> Fail NullDereference (api\<lparr> api_replacementCharacterFontFace := None \<rparr>)
             | Some f \<Rightarrow>
                 (case GetGlyphIndices sh f 0xFFFD of
                    (hr, g) \<Rightarrow>
                      if FAILED hr then
                        Ok (api\<lparr> api_replacementCharacterFontFace := None,
                                 api_replacementCharacterGlyphIndex := 0,
                                 api_replacementCharacterLookedUp := True \<rparr>)
                      else
                        Ok (api\<lparr> api_replacementCharacterFontFace := Some f,
                                 api_replacementCharacterGlyphIndex := g,
                                 api_replacementCharacterLookedUp := True \<rparr>)))
          else
            Ok (api\<lparr> api_replacementCharacterFontFace := None,
                     api_replacementCharacterGlyphIndex := 0,
                     api_replacementCharacterLookedUp := True \<rparr>))"

text \<open>
  The second part: one glyph per covered column. The column difference is a signed
  integer; converted to \<^verbatim>\<open>size_t\<close> a negative one is a count no vector can hold.
\<close>

definition emitReplacementCharacter :: "RenderingPayload \<Rightarrow> u32 \<Rightarrow> u32 \<Rightarrow> ShapedRow \<times> ApiState \<Rightarrow> (ShapedRow \<times> ApiState) res" where
  "emitReplacementCharacter p from to = (\<lambda>(row, api).
     case api_replacementCharacterFontFace api of
       None \<Rightarrow> Ok (row, api)
     | Some face \<Rightarrow>
         let initialIndicesCount = length (glyphIndices row) in
         (case read_at (api_bufferLineColumn api) (unat from) of
            Inl e \<Rightarrow> Fail e (row, api)
          | Inr col0 \<Rightarrow>
         (case read_at (api_bufferLineColumn api) (unat to) of
            Inl e \<Rightarrow> Fail e (row, api)
          | Inr col1 \<Rightarrow>
              if uint col1 - uint col0 < 0 then Fail LengthError (row, api)
              else
                let cols = nat (uint col1 - uint col0);
                    row1 = row\<lparr> glyphIndices := glyphIndices row
                                   @ replicate cols (api_replacementCharacterGlyphIndex api),
                                 glyphAdvances := glyphAdvances row
                                   @ replicate cols (fst (p_cellSizeDIP p)),
                                 glyphOffsets := glyphOffsets row @ replicate cols (0, 0) \<rparr>
                in
                  if length (api_colorsForeground api) < unat col1 then Fail OutOfRange (row1, api)
                  else
                    Ok (row1\<lparr> colors := colors row1
                                 @ take (unat col1 - unat col0) (drop (unat col0) (api_colorsForeground api)),
                               mappings := mappings row1
                                 @ [\<lparr> fontFace = face,
                                      emSize = fontSizeInDIP (font (p_s p)) * 0.5,
                                      glyphRangeStart = of_nat initialIndicesCount,
                                      glyphRangeEnd = of_nat (length (glyphIndices row1)) \<rparr>] \<rparr>,
                        api))))"

definition mapReplacementCharacter :: "Shaper \<Rightarrow> RenderingPayload \<Rightarrow> u32 \<Rightarrow> u32 \<Rightarrow> ShapedRow \<times> ApiState \<Rightarrow> (ShapedRow \<times> ApiState) res" where
  "mapReplacementCharacter sh p from to = (\<lambda>(row, api).
     case (if api_replacementCharacterLookedUp api then Ok api
           else lookupReplacementCharacter sh p api) of
       Fail e api' \<Rightarrow> Fail e (row, api')
     | Ok api' \<Rightarrow> emitReplacementCharacter p from to (row, api'))"

section \<open>Shaping a complex segment\<close>

text \<open>
  The glyph query of \<^verbatim>\<open>_mapComplex\<close> with its growth-and-retry loop. \<open>retry\<close> is the
  loop's counter; the state carries the glyph count the service reported last. The sizes
  are \<^verbatim>\<open>size_t\<close> values: the overflow that \<^verbatim>\<open>Expects\<close> guards against needs a
  buffer of half the address space, so the check can only fail on a buffer of fewer than
  two elements here.
\<close>

function getGlyphs :: "Shaper \<Rightarrow> wchar_t list \<Rightarrow> fontFace \<Rightarrow> TextAnalysisSinkResult \<Rightarrow> nat \<Rightarrow> ApiState \<Rightarrow> (u32 \<times> ApiState) res" where
  "getGlyphs sh text face a retry api =
     (case GetGlyphs sh text face a (of_nat (length (api_glyphIndices api))) of
        (hr, clusterMap, indices, actualGlyphCount) \<Rightarrow>
          let api1 = api\<lparr> api_clusterMap := store clusterMap (api_clusterMap api),
                          api_glyphIndices := store indices (api_glyphIndices api) \<rparr>
          in
            if hr = E_NOT_SUFFICIENT_BUFFER \<and> retry + 1 < 8 then
              let size = length (api_glyphIndices api1) + length (api_glyphIndices api1) div 2 in
                if \<not> length (api_glyphIndices api1) < size then
                  Fail ContractViolation (actualGlyphCount, api1)
                else
                  getGlyphs sh text face a (retry + 1)
                    (api1\<lparr> api_glyphIndices := replicate size 0, api_glyphProps := size \<rparr>)
            else if FAILED hr then Fail (Failed hr) (actualGlyphCount, api1)
            else Ok (actualGlyphCount, api1))"
  by pat_completeness auto
termination
  by (relation "measure (\<lambda>(sh, text, face, a, retry, api). 8 - retry)") auto

declare getGlyphs.simps [simp del]

text \<open>
  The placement query: the advance and offset buffers grow to hold the glyphs, then the
  service fills them.
\<close>

definition getGlyphPlacements :: "Shaper \<Rightarrow> RenderingPayload \<Rightarrow> wchar_t list \<Rightarrow> fontFace \<Rightarrow> TextAnalysisSinkResult \<Rightarrow> u32 \<Rightarrow> ApiState \<Rightarrow> ApiState res" where
  "getGlyphPlacements sh p text face a actualGlyphCount api =
     (let api1 =
            (if length (api_glyphAdvances api) < unat actualGlyphCount then
               let size = max (length (api_glyphAdvances api) + length (api_glyphAdvances api) div 2)
                              (unat actualGlyphCount)
               in api\<lparr> api_glyphAdvances := replicate size 0,
                        api_glyphOffsets := replicate size (0, 0) \<rparr>
             else api)
      in
        case GetGlyphPlacements sh text (api_clusterMap api1) (api_glyphIndices api1)
               actualGlyphCount face (fontSizeInDIP (font (p_s p))) a of
          (hr, advances, offsets) \<Rightarrow>
            let api2 = api1\<lparr> api_glyphAdvances := store advances (api_glyphAdvances api1),
                              api_glyphOffsets := store offsets (api_glyphOffsets api1) \<rparr>
            in if FAILED hr then Fail (Failed hr) api2 else Ok api2)"

text \<open>
  The sum of the advances of the glyphs \<open>prevCluster \<le> j < nextCluster\<close>, as the inner
  loop of the correction step adds them up. No glyph is read when the range is empty.
\<close>

definition clusterAdvance :: "f32 list \<Rightarrow> u16 \<Rightarrow> u16 \<Rightarrow> error + f32" where
  "clusterAdvance advances prevCluster nextCluster =
     (if prevCluster < nextCluster \<and> length advances < unat nextCluster then Inl OutOfRange
      else Inr (sum_list (map (\<lambda>j. advances ! j) [unat prevCluster..<unat nextCluster])))"

text \<open>
  The correction loop of \<^verbatim>\<open>_mapComplex\<close> over the text indices \<open>is\<close> (\<open>1 \<dots> textLength\<close>
  in the source). The state is the advance scratch buffer and the row's colours;
  \<open>prevCluster\<close> and \<open>beg\<close> are the loop's variables. The number of colours inserted is
  a signed difference converted to \<^verbatim>\<open>size_t\<close>.
\<close>

fun correctClusters :: "RenderingPayload \<Rightarrow> ApiState \<Rightarrow> u32 \<Rightarrow> nat list \<Rightarrow> u16 \<Rightarrow> nat \<Rightarrow> f32 list \<times> u32 list \<Rightarrow> (f32 list \<times> u32 list) res" where
  "correctClusters p api pos [] prevCluster beg st = Ok st"
| "correctClusters p api pos (i # is) prevCluster beg (advances, cols) =
     (case read_at (api_clusterMap api) i of
        Inl e \<Rightarrow> Fail e (advances, cols)
      | Inr nextCluster \<Rightarrow>
          if prevCluster = nextCluster then correctClusters p api pos is prevCluster beg (advances, cols)
          else
            (case read_at (api_bufferLineColumn api) (unat pos + beg) of
               Inl e \<Rightarrow> Fail e (advances, cols)
             | Inr col1 \<Rightarrow>
            (case read_at (api_bufferLineColumn api) (unat pos + i) of
               Inl e \<Rightarrow> Fail e (advances, cols)
             | Inr col2 \<Rightarrow>
            (case read_at (api_colorsForeground api) (unat col1) of
               Inl e \<Rightarrow> Fail e (advances, cols)
             | Inr fg \<Rightarrow>
                 let expectedAdvance = real_of_int (uint col2 - uint col1) * fst (p_cellSizeDIP p) in
                 (case clusterAdvance advances prevCluster nextCluster of
                    Inl e \<Rightarrow> Fail e (advances, cols)
                  | Inr actualAdvance \<Rightarrow>
                      if nextCluster = 0 \<or> length advances < unat nextCluster then
                        Fail OutOfRange (advances, cols)
                      else
                        let advances' = advances[unat nextCluster - 1 :=
                              advances ! (unat nextCluster - 1) + (expectedAdvance - actualAdvance)]
                        in
                          if nextCluster < prevCluster then Fail LengthError (advances', cols)
                          else
                            correctClusters p api pos is nextCluster i
                              (advances', cols @ replicate (unat nextCluster - unat prevCluster) fg))))))"

text \<open>
  Lines 704 to 737 of the source: the end marker of the cluster map, the correction loop,
  and the copy of the first \<open>actualGlyphCount\<close> glyphs, advances and offsets into the row.
\<close>

definition appendShaped :: "RenderingPayload \<Rightarrow> TextAnalysisSinkResult \<Rightarrow> u32 \<Rightarrow> ShapedRow \<times> ApiState \<Rightarrow> (ShapedRow \<times> ApiState) res" where
  "appendShaped p a actualGlyphCount = (\<lambda>(row, api).
     if length (api_clusterMap api) \<le> unat (textLength a) then Fail OutOfRange (row, api)
     else
       let api1 = api\<lparr> api_clusterMap :=
                    (api_clusterMap api)[unat (textLength a) := ucast actualGlyphCount] \<rparr>
       in
         (case correctClusters p api1 (textPosition a) [1..<Suc (unat (textLength a))]
                 (api_clusterMap api1 ! 0) 0 (api_glyphAdvances api1, colors row) of
            Fail e (advances, cols) \<Rightarrow>
              Fail e (row\<lparr> colors := cols \<rparr>, api1\<lparr> api_glyphAdvances := advances \<rparr>)
          | Ok (advances, cols) \<Rightarrow>
              let api2 = api1\<lparr> api_glyphAdvances := advances \<rparr>;
                  row1 = row\<lparr> colors := cols \<rparr>;
                  n = unat actualGlyphCount
              in
                if length (api_glyphIndices api2) < n \<or> length (api_glyphAdvances api2) < n
                   \<or> length (api_glyphOffsets api2) < n
                then Fail OutOfRange (row1, api2)
                else
                  Ok (row1\<lparr> glyphIndices := glyphIndices row1 @ take n (api_glyphIndices api2),
                             glyphAdvances := glyphAdvances row1 @ take n (api_glyphAdvances api2),
                             glyphOffsets := glyphOffsets row1 @ take n (api_glyphOffsets api2) \<rparr>,
                      api2)))"

text \<open>One iteration of the loop over the analysis results in \<^verbatim>\<open>_mapComplex\<close>.\<close>

definition mapComplexRun :: "Shaper \<Rightarrow> RenderingPayload \<Rightarrow> fontFace \<Rightarrow> TextAnalysisSinkResult \<Rightarrow> ShapedRow \<times> ApiState \<Rightarrow> (ShapedRow \<times> ApiState) res" where
  "mapComplexRun sh p face a = (\<lambda>(row, api).
     let api1 =
           (if length (api_clusterMap api) \<le> unat (textLength a) then
              api\<lparr> api_clusterMap := replicate (unat (textLength a) + 1) 0,
                   api_textProps := unat (textLength a) \<rparr>
            else api)
     in
       case slice (api_bufferLine api1) (unat (textPosition a)) (unat (textLength a)) of
         Inl e \<Rightarrow> Fail e (row, api1)
       | Inr text \<Rightarrow>
           (case getGlyphs sh text face a 0 api1 of
              Fail e (actualGlyphCount, api2) \<Rightarrow> Fail e (row, api2)
            | Ok (actualGlyphCount, api2) \<Rightarrow>
                (case getGlyphPlacements sh p text face a actualGlyphCount api2 of
                   Fail e api3 \<Rightarrow> Fail e (row, api3)
                 | Ok api3 \<Rightarrow> appendShaped p a actualGlyphCount (row, api3))))"

fun mapComplexRuns :: "Shaper \<Rightarrow> RenderingPayload \<Rightarrow> fontFace \<Rightarrow> TextAnalysisSinkResult list \<Rightarrow> ShapedRow \<times> ApiState \<Rightarrow> (ShapedRow \<times> ApiState) res" where
  "mapComplexRuns sh p face [] st = Ok st"
| "mapComplexRuns sh p face (a # as) st =
     (case mapComplexRun sh p face a st of
        Ok st' \<Rightarrow> mapComplexRuns sh p face as st'
      | Fail e st' \<Rightarrow> Fail e st')"

text \<open>
  \<^verbatim>\<open>_mapComplex\<close>: the script analysis of \<open>length\<close> code units from \<open>idx\<close>, then one shaping
  run per result. \<^verbatim>\<open>gsl::narrow\<close> raises when the size of the staging buffer does not
  fit 32 bits.
\<close>

definition mapComplex :: "Shaper \<Rightarrow> RenderingPayload \<Rightarrow> fontFace \<Rightarrow> u32 \<Rightarrow> u32 \<Rightarrow> ShapedRow \<times> ApiState \<Rightarrow> (ShapedRow \<times> ApiState) res" where
  "mapComplex sh p mappedFontFace idx len = (\<lambda>(row, api).
     let api1 = api\<lparr> api_analysisResults := [] \<rparr> in
       if 2 ^ 32 \<le> length (api_bufferLine api1) then Fail NarrowingError (row, api1)
       else
         (case AnalyzeScript sh (api_bufferLine api1) idx len of
            (hr, results) \<Rightarrow>
              let api2 = api1\<lparr> api_analysisResults := results \<rparr> in
                if FAILED hr then Fail (Failed hr) (row, api2)
                else mapComplexRuns sh p mappedFontFace (api_analysisResults api2) (row, api2)))"

section \<open>The line flush\<close>

text \<open>
  The two loops of \<^verbatim>\<open>_flushBufferLine\<close> advance by the lengths the service reports,
  so a service that reports a length of zero keeps them running for ever. Both loops
  take fuel: one unit per iteration, and \<open>None\<close> when it runs out.

  The inner loop shapes the text up to \<open>mappedEnd\<close>, all of it in the face \<open>mappedFontFace\<close>,
  one segment of uniform complexity at a time.
\<close>

fun flushSegments :: "nat \<Rightarrow> Shaper \<Rightarrow> RenderingPayload \<Rightarrow> fontFace \<Rightarrow> u32 \<Rightarrow> u32 \<Rightarrow> ShapedRow \<times> ApiState \<Rightarrow> (ShapedRow \<times> ApiState) res option" where
  "flushSegments 0 sh p mappedFontFace mappedEnd idx st = None"
| "flushSegments (Suc fuel) sh p mappedFontFace mappedEnd idx (row, api) =
     (if idx < mappedEnd then
        (case slice (api_bufferLine api) (unat idx) (unat (mappedEnd - idx)) of
           Inl e \<Rightarrow> Some (Fail e (row, api))
         | Inr text \<Rightarrow>
             (case GetTextComplexity sh text mappedFontFace of
                (hr, isTextSimple, complexityLength, indices) \<Rightarrow>
                  let api1 = api\<lparr> api_glyphIndices := store indices (api_glyphIndices api) \<rparr> in
                    if FAILED hr then Some (Fail (Failed hr) (row, api1))
                    else
                      (case (if isTextSimple then
                               (case simpleRun p api1 idx [0..<unat complexityLength] row of
                                  Ok row' \<Rightarrow> Ok (row', api1)
                                | Fail e row' \<Rightarrow> Fail e (row', api1))
                             else mapComplex sh p mappedFontFace idx complexityLength (row, api1)) of
                         Fail e st \<Rightarrow> Some (Fail e st)
                       | Ok st \<Rightarrow>
                           flushSegments fuel sh p mappedFontFace mappedEnd (idx + complexityLength) st)))
      else Some (Ok (row, api)))"

text \<open>
  The glyph scratch buffers grow when the mapped run is longer than they are
  (lines 505 to 513).
\<close>

definition growForRun :: "u32 \<Rightarrow> ApiState \<Rightarrow> ApiState res" where
  "growForRun mappedLength api =
     (if length (api_glyphIndices api) < unat mappedLength then
        let size = max (length (api_glyphIndices api) + length (api_glyphIndices api) div 2)
                       (unat mappedLength)
        in
          if \<not> length (api_glyphIndices api) < size then Fail ContractViolation api
          else Ok (api\<lparr> api_glyphIndices := replicate size 0, api_glyphProps := size \<rparr>)
      else Ok api)"

text \<open>The mapping range of a shaped run, appended only when the run produced glyphs.\<close>

definition appendMapping :: "RenderingPayload \<Rightarrow> fontFace \<Rightarrow> f32 \<Rightarrow> nat \<Rightarrow> ShapedRow \<Rightarrow> ShapedRow" where
  "appendMapping p mappedFontFace scale initialIndicesCount row =
     (let indicesCount = length (glyphIndices row) in
        if initialIndicesCount < indicesCount then
          row\<lparr> mappings := mappings row
                 @ [\<lparr> fontFace = mappedFontFace,
                      emSize = fontSizeInDIP (font (p_s p)) * scale,
                      glyphRangeStart = of_nat initialIndicesCount,
                      glyphRangeEnd = of_nat indicesCount \<rparr>] \<rparr>
        else row)"

text \<open>
  The outer loop: the longest prefix of the remaining text that one face can show, then
  the fallback or the segments of that prefix. \<open>fuel\<close> is the budget of every inner loop,
  \<open>n\<close> what is left for this one.
\<close>

fun flushRuns :: "nat \<Rightarrow> nat \<Rightarrow> Shaper \<Rightarrow> RenderingPayload \<Rightarrow> u32 \<Rightarrow> ShapedRow \<times> ApiState \<Rightarrow> (ShapedRow \<times> ApiState) res option" where
  "flushRuns fuel 0 sh p idx st = None"
| "flushRuns fuel (Suc n) sh p idx (row, api) =
     (if unat idx < length (api_bufferLine api) then
        (case mapCharacters sh p api
                (take (unat (of_nat (length (api_bufferLine api)) - idx))
                   (drop (unat idx) (api_bufferLine api))) of
           Inl e \<Rightarrow> Some (Fail e (row, api))
         | Inr (mappedLength, scale, mappedFontFace) \<Rightarrow>
             let mappedEnd = idx + mappedLength in
               (case mappedFontFace of
                  None \<Rightarrow>
                    (case mapReplacementCharacter sh p idx mappedEnd (row, api) of
                       Fail e st \<Rightarrow> Some (Fail e st)
                     | Ok st \<Rightarrow> flushRuns fuel n sh p mappedEnd st)
                | Some face \<Rightarrow>
                    let initialIndicesCount = length (glyphIndices row) in
                      (case growForRun mappedLength api of
                         Fail e api1 \<Rightarrow> Some (Fail e (row, api1))
                       | Ok api1 \<Rightarrow>
                           (case flushSegments fuel sh p face mappedEnd idx (row, api1) of
                              None \<Rightarrow> None
                            | Some (Fail e st) \<Rightarrow> Some (Fail e st)
                            | Some (Ok (row', api')) \<Rightarrow>
                                flushRuns fuel n sh p mappedEnd
                                  (appendMapping p face scale initialIndicesCount row', api')))))
      else Some (Ok (row, api)))"

text \<open>
  The engine: the api-facing state, the paint-facing state and whether the backend \<^verbatim>\<open>_b\<close>
  holds device resources.
\<close>

record AtlasEngine =
  e_api :: ApiState
  e_p :: RenderingPayload
  e_b :: bool

text \<open>
  The scope guard of \<^verbatim>\<open>_flushBufferLine\<close>: it empties the staging buffer when the function
  is left, by its end or by an exception.
\<close>

definition cleanup :: "ApiState \<Rightarrow> ApiState" where
  "cleanup api = api\<lparr> api_bufferLine := [], api_bufferLineColumn := [] \<rparr>"

text \<open>
  \<^verbatim>\<open>_flushBufferLine\<close>. \<open>row\<close> is a reference to the row of the last paint call: what
  the loops did to it stays in the Row Store whatever the outcome. After a failure that
  is no exception nothing runs any more, the scope guard included.
\<close>

definition flushBufferLine :: "nat \<Rightarrow> Shaper \<Rightarrow> AtlasEngine \<Rightarrow> AtlasEngine res option" where
  "flushBufferLine fuel sh e =
     (if api_bufferLine (e_api e) = [] then Some (Ok e)
      else if length (api_bufferLineColumn (e_api e)) \<noteq> length (api_bufferLine (e_api e)) + 1 then
        Some (Fail ContractViolation e)
      else
        let y = unat (snd (api_lastPaintBufferLineCoord (e_api e))) in
          (case read_at (p_rows (e_p e)) y of
             Inl err \<Rightarrow> Some (Fail err e)
           | Inr row \<Rightarrow>
               (case flushRuns fuel fuel sh (e_p e) 0 (row, e_api e) of
                  None \<Rightarrow> None
                | Some (Ok (row', api')) \<Rightarrow>
                    Some (Ok (e\<lparr> e_api := cleanup api',
                                  e_p := (e_p e)\<lparr> p_rows := (p_rows (e_p e))[y := row'] \<rparr> \<rparr>))
                | Some (Fail err (row', api')) \<Rightarrow>
                    Some (Fail err
                      (e\<lparr> e_api := (if is_exception err then cleanup api' else api'),
                          e_p := (e_p e)\<lparr> p_rows := (p_rows (e_p e))[y := row'] \<rparr> \<rparr>)))))"

section \<open>Settings updates\<close>

text \<open>
  Modelled from the spec: the constants of the empty and the full invalidation and
  \<^verbatim>\<open>clamp\<close> are declared in a header that is not part of the sources. \<open>clamp val lo hi\<close>
  is the value of the range from \<open>lo\<close> to \<open>hi\<close> nearest to \<open>val\<close>.
\<close>

definition invalidatedAreaNone :: "u16 \<times> u16 \<times> u16 \<times> u16" where
  "invalidatedAreaNone = (0xFFFF, 0xFFFF, 0, 0)"

definition invalidatedRowsNone :: "u16 \<times> u16" where
  "invalidatedRowsNone = (0xFFFF, 0)"

definition invalidatedRowsAll :: "u16 \<times> u16" where
  "invalidatedRowsAll = (0, 0xFFFF)"

definition clamp :: "'a::linorder \<Rightarrow> 'a \<Rightarrow> 'a \<Rightarrow> 'a" where
  "clamp val lo hi = max lo (min hi val)"

text \<open>
  \<^verbatim>\<open>_recreateFontDependentResources\<close>: the cell size in DIP and the reset of the cached
  replacement glyph. The tables of font axis values only reach the service and are left
  out. \<^verbatim>\<open>USER_DEFAULT_SCREEN_DPI\<close> is 96.
\<close>

definition recreateFontDependentResources :: "AtlasEngine \<Rightarrow> AtlasEngine" where
  "recreateFontDependentResources e =
     (let f = font (p_s (e_p e));
          dipPerPixel = 96 / real_of_int (uint (dpi f))
      in e\<lparr> e_p := (e_p e)\<lparr> p_cellSizeDIP :=
                 (real_of_int (uint (fst (cellSize f))) * dipPerPixel,
                  real_of_int (uint (snd (cellSize f))) * dipPerPixel) \<rparr>,
             e_api := (e_api e)\<lparr> api_replacementCharacterFontFace := None,
                                 api_replacementCharacterGlyphIndex := 0,
                                 api_replacementCharacterLookedUp := False \<rparr> \<rparr>)"

text \<open>A freshly constructed row, as the elements of a new Row Store are.\<close>

definition emptyRow :: ShapedRow where
  "emptyRow =
     \<lparr> mappings = [], glyphIndices = [], glyphAdvances = [], glyphOffsets = [],
       colors = [], gridLineRanges = [], selectionFrom = 0, selectionTo = 0,
       topPx = 0, bottomPx = 0 \<rparr>"

text \<open>
  \<^verbatim>\<open>_recreateCellCountDependentResources\<close>. New buffers are modelled as filled with
  zeros. The staging buffer is replaced by an empty one; the column sequence only
  reserves capacity and keeps what it holds.
\<close>

definition recreateCellCountDependentResources :: "AtlasEngine \<Rightarrow> AtlasEngine" where
  "recreateCellCountDependentResources e =
     (let cx = unat (fst (cellCount (p_s (e_p e))));
          cy = unat (snd (cellCount (p_s (e_p e))));
          projectedTextSize = cx * 2;
          projectedGlyphSize = 3 * projectedTextSize div 2 + 16
      in e\<lparr> e_api := (e_api e)\<lparr> api_bufferLine := [],
                                 api_colorsForeground := replicate cx 0,
                                 api_analysisResults := [],
                                 api_clusterMap := replicate projectedTextSize 0,
                                 api_textProps := projectedTextSize,
                                 api_glyphIndices := replicate projectedGlyphSize 0,
                                 api_glyphProps := projectedGlyphSize,
                                 api_glyphAdvances := replicate projectedGlyphSize 0,
                                 api_glyphOffsets := replicate projectedGlyphSize (0, 0) \<rparr>,
             e_p := (e_p e)\<lparr> p_rows := replicate cy emptyRow,
                             p_backgroundBitmap := replicate (cx * cy) 0 \<rparr> \<rparr>)"

text \<open>\<^verbatim>\<open>_handleSettingsUpdate\<close>: sub-objects are compared by identity, the cell count by value.\<close>

definition handleSettingsUpdate :: "AtlasEngine \<Rightarrow> AtlasEngine" where
  "handleSettingsUpdate e =
     (let targetChanged = target (p_s (e_p e)) \<noteq> target (api_s (e_api e));
          fontChanged = fontGeneration (p_s (e_p e)) \<noteq> fontGeneration (api_s (e_api e));
          cellCountChanged = cellCount (p_s (e_p e)) \<noteq> cellCount (api_s (e_api e));
          e1 = e\<lparr> e_p := (e_p e)\<lparr> p_s := api_s (e_api e) \<rparr> \<rparr>;
          e2 = (if targetChanged then e1\<lparr> e_b := False \<rparr> else e1);
          e3 = (if fontChanged then recreateFontDependentResources e2 else e2);
          e4 = (if cellCountChanged then recreateCellCountDependentResources e3 else e3)
      in e4\<lparr> e_api := (e_api e4)\<lparr> api_invalidatedRows := invalidatedRowsAll \<rparr> \<rparr>)"

section \<open>Frame start\<close>

text \<open>
  What a move leaves behind in the row it took the content from: the sequences are
  empty, the plain members are as they were.
\<close>

definition moved_from :: "ShapedRow \<Rightarrow> ShapedRow" where
  "moved_from r = r\<lparr> mappings := [], glyphIndices := [], glyphAdvances := [],
                     glyphOffsets := [], colors := [], gridLineRanges := [] \<rparr>"

definition shiftPx :: "int \<Rightarrow> ShapedRow \<Rightarrow> ShapedRow" where
  "shiftPx deltaPx r = r\<lparr> topPx := topPx r + deltaPx, bottomPx := bottomPx r + deltaPx \<rparr>"

text \<open>
  Scrolling up by \<open>k\<close> rows: \<^verbatim>\<open>std::move(first, last, dest)\<close> assigns row \<open>i + k\<close> to row
  \<open>i\<close>, front to back, then the pixel bounds of the rows that arrived are shifted.
  A row at the end that was a source and no destination is left moved from.
\<close>

definition scrollUp :: "nat \<Rightarrow> int \<Rightarrow> ShapedRow list \<Rightarrow> ShapedRow list" where
  "scrollUp k deltaPx rows =
     map (shiftPx deltaPx) (drop k rows)
       @ map (\<lambda>j. if k \<le> j then moved_from (rows ! j) else rows ! j)
           [length rows - k..<length rows]"

text \<open>
  Scrolling down by \<open>k\<close> rows: \<^verbatim>\<open>std::move_backward(first, last, dest)\<close> assigns row \<open>i\<close>
  to row \<open>i + k\<close>, back to front.
\<close>

definition scrollDown :: "nat \<Rightarrow> int \<Rightarrow> ShapedRow list \<Rightarrow> ShapedRow list" where
  "scrollDown k deltaPx rows =
     map (\<lambda>j. if j < length rows - k then moved_from (rows ! j) else rows ! j) [0..<k]
       @ map (shiftPx deltaPx) (take (length rows - k) rows)"

text \<open>\<^verbatim>\<open>memmove\<close> inside one buffer: \<open>count\<close> elements from \<open>src\<close> to \<open>dst\<close>.\<close>

definition memmove :: "'a list \<Rightarrow> nat \<Rightarrow> nat \<Rightarrow> nat \<Rightarrow> 'a list" where
  "memmove buf dst src count =
     take dst buf @ take count (drop src buf) @ drop (dst + count) buf"

text \<open>The loop that clears the rows of the invalidated range.\<close>

definition clearRows :: "u16 \<times> u16 \<Rightarrow> u16 \<Rightarrow> ShapedRow list \<Rightarrow> ShapedRow list" where
  "clearRows invalidated cellHeight rows =
     fold (\<lambda>y rs. rs[y := clear (of_nat y) cellHeight])
       [unat (fst invalidated)..<unat (snd invalidated)] rows"

text \<open>The clamping of the invalidation state at the head of \<^verbatim>\<open>StartPaint\<close>.\<close>

definition clampInvalidation :: "AtlasEngine \<Rightarrow> AtlasEngine" where
  "clampInvalidation e =
     (let cx = fst (cellCount (p_s (e_p e)));
          cy = snd (cellCount (p_s (e_p e)));
          area = (case api_invalidatedCursorArea (e_api e) of
                    (left, top0, right, bottom) \<Rightarrow>
                      let left' = min left cx; top' = min top0 cy
                      in (left', top', clamp right left' cx, clamp bottom top' cy));
          rows = (case api_invalidatedRows (e_api e) of
                    (x, y) \<Rightarrow> let x' = min x cy in (x', clamp y x' cy));
          limit = uint (cy AND 0x7fff);
          scroll = word_of_int (clamp (sint (api_scrollOffset (e_api e))) (- limit) limit)
      in e\<lparr> e_api := (e_api e)\<lparr> api_invalidatedCursorArea := area,
                                 api_invalidatedRows := rows,
                                 api_scrollOffset := scroll \<rparr> \<rparr>)"

text \<open>
  The scroll block of \<^verbatim>\<open>StartPaint\<close> for a scroll offset other than zero: the
  invalidated rows, the Row Store and the background bitmap. The iterator arithmetic
  of the source needs a Row Store and a bitmap that are as large as the offset asks.
\<close>

definition scrollBuffers :: "AtlasEngine \<Rightarrow> AtlasEngine res" where
  "scrollBuffers e =
     (let api = e_api e; p = e_p e;
          offset = sint (api_scrollOffset api);
          cy = snd (cellCount (p_s p));
          nothingInvalid = (fst (api_invalidatedRows api) = snd (api_invalidatedRows api));
          deltaPx = offset * uint (snd (cellSize (font (p_s p))));
          k = nat \<bar>offset\<bar>;
          width = unat (fst (cellCount (p_s p)));
          dst = nat (max 0 offset) * width;
          src = nat (- min 0 offset) * width
      in
        if length (p_rows p) < k then Fail OutOfRange e
        else
          let invalidated = (if offset < 0 then
                       let endRow = (word_of_int (uint cy + offset) :: u16)
                       in (if nothingInvalid then endRow else min (fst (api_invalidatedRows api)) endRow,
                           cy)
                     else
                       (0, if nothingInvalid then api_scrollOffset api
                           else max (snd (api_invalidatedRows api)) (api_scrollOffset api)));
              rows = (if offset < 0 then scrollUp k deltaPx (p_rows p)
                      else scrollDown k deltaPx (p_rows p));
              e1 = e\<lparr> e_api := api\<lparr> api_invalidatedRows := invalidated \<rparr>,
                      e_p := p\<lparr> p_rows := rows \<rparr> \<rparr>
          in
            if length (p_backgroundBitmap p) < max src dst then Fail OutOfRange e1
            else
              Ok (e1\<lparr> e_p := (e_p e1)\<lparr> p_backgroundBitmap :=
                     memmove (p_backgroundBitmap p) dst src
                       (length (p_backgroundBitmap p) - max src dst) \<rparr> \<rparr>))"

text \<open>
  The body of \<^verbatim>\<open>StartPaint\<close> from the comparison of the settings on. The window block
  before it only prepares the proposed settings, which are an input here; the debug
  switch that disables partial invalidation is off; assertions are not modelled.
\<close>

definition StartPaint_body :: "AtlasEngine \<Rightarrow> AtlasEngine res" where
  "StartPaint_body e =
     (let e1 = (if generation (p_s (e_p e)) \<noteq> generation (api_s (e_api e))
                then handleSettingsUpdate e else e);
          e2 = clampInvalidation e1
      in
        case (if api_scrollOffset (e_api e2) \<noteq> 0 then scrollBuffers e2 else Ok e2) of
          Fail err e3 \<Rightarrow> Fail err e3
        | Ok e3 \<Rightarrow>
            let invalidated = api_invalidatedRows (e_api e3) in
              if fst invalidated < snd invalidated
                 \<and> length (p_rows (e_p e3)) < unat (snd invalidated) then
                Fail OutOfRange e3
              else
                let dirty = (0, uint (fst invalidated), uint (fst (cellCount (p_s (e_p e3)))),
                             uint (snd invalidated))
                in
                  Ok (e3\<lparr> e_api := (e_api e3)\<lparr> api_dirtyRect := dirty \<rparr>,
                          e_p := (e_p e3)\<lparr>
                            p_rows := clearRows invalidated (snd (cellSize (font (p_s (e_p e3))))) (p_rows (e_p e3)),
                            p_dirtyRect := dirty,
                            p_cursorRect := (0, 0, 0, 0),
                            p_scrollOffset := api_scrollOffset (e_api e3) \<rparr> \<rparr>))"

section \<open>The frame-facing entry points\<close>

text \<open>
  Modelled from the spec: \<^verbatim>\<open>CATCH_RETURN\<close> is a macro of a library that is not part of the
  sources. Every entry point below is a \<^verbatim>\<open>noexcept\<close> function whose whole body is a
  \<^verbatim>\<open>try\<close> block closed by this macro: an exception that leaves the body is caught and
  its \<^verbatim>\<open>HRESULT\<close> returned (the one it carries, or that of an unhandled exception,
  \<^verbatim>\<open>0x8007023E\<close>). A call either returns a status or never returns.
\<close>

datatype 's call = Returned hresult 's | Aborted error 's

fun ResultFromCaughtException :: "error \<Rightarrow> hresult" where
  "ResultFromCaughtException (Failed hr) = hr"
| "ResultFromCaughtException e = - 2147024322"

definition CATCH_RETURN :: "'s res \<Rightarrow> 's call" where
  "CATCH_RETURN r =
     (case r of
        Ok s \<Rightarrow> Returned S_OK s
      | Fail e s \<Rightarrow>
          if is_exception e then Returned (ResultFromCaughtException e) s else Aborted e s)"

definition StartPaint :: "AtlasEngine \<Rightarrow> AtlasEngine call" where
  "StartPaint e = CATCH_RETURN (StartPaint_body e)"

text \<open>\<^verbatim>\<open>EndPaint\<close>: the last pending line is flushed, then the invalidation is reset.\<close>

definition EndPaint_body :: "nat \<Rightarrow> Shaper \<Rightarrow> AtlasEngine \<Rightarrow> AtlasEngine res option" where
  "EndPaint_body fuel sh e =
     (case flushBufferLine fuel sh e of
        None \<Rightarrow> None
      | Some (Fail err e1) \<Rightarrow> Some (Fail err e1)
      | Some (Ok e1) \<Rightarrow>
          Some (Ok (e1\<lparr> e_api := (e_api e1)\<lparr> api_invalidatedCursorArea := invalidatedAreaNone,
                                             api_invalidatedRows := invalidatedRowsNone,
                                             api_scrollOffset := 0 \<rparr> \<rparr>)))"

definition EndPaint :: "nat \<Rightarrow> Shaper \<Rightarrow> AtlasEngine \<Rightarrow> AtlasEngine call option" where
  "EndPaint fuel sh e = map_option CATCH_RETURN (EndPaint_body fuel sh e)"

text \<open>
  The text of the clusters of one paint call, appended to the staging buffer with the
  column each code unit starts in. A cluster is its text and the number of columns it
  covers; the column counter is 16 bits wide.
\<close>

fun appendClusters :: "(wchar_t list \<times> int) list \<Rightarrow> u16 \<Rightarrow> wchar_t list \<times> u16 list \<Rightarrow> u16 \<times> wchar_t list \<times> u16 list" where
  "appendClusters [] column (line, cols) = (column, line, cols)"
| "appendClusters ((text, columns) # cs) column (line, cols) =
     appendClusters cs (column + word_of_int columns)
       (line @ text, cols @ replicate (length text) column)"

text \<open>
  \<^verbatim>\<open>PaintBufferLine\<close>; \<open>coord\<close> is the pair (x, y). \<^verbatim>\<open>std::fill\<close> writes the foreground
  colour of the columns from \<open>x\<close> up to \<open>column\<close>, \<^verbatim>\<open>std::fill_n\<close> the background colour
  of as many cells of the bitmap (none when the count is not positive).
\<close>

definition PaintBufferLine_body :: "nat \<Rightarrow> Shaper \<Rightarrow> (wchar_t list \<times> int) list \<Rightarrow> int \<times> int \<Rightarrow> AtlasEngine \<Rightarrow> AtlasEngine res option" where
  "PaintBufferLine_body fuel sh clusters coord e =
     (let y = (word_of_int (clamp (snd coord) 0 (uint (snd (cellCount (p_s (e_p e)))))) :: u16) in
        case (if snd (api_lastPaintBufferLineCoord (e_api e)) \<noteq> y then flushBufferLine fuel sh e
              else Some (Ok e)) of
          None \<Rightarrow> None
        | Some (Fail err e1) \<Rightarrow> Some (Fail err e1)
        | Some (Ok e1) \<Rightarrow>
            let api = e_api e1; p = e_p e1;
                x = (word_of_int (clamp (fst coord) 0 (uint (fst (cellCount (p_s p))))) :: u16)
            in
              (case appendClusters clusters x
                      (api_bufferLine api, butlast (api_bufferLineColumn api)) of
                 (column, line, cols) \<Rightarrow>
                   let api1 = api\<lparr> api_bufferLine := line, api_bufferLineColumn := cols @ [column] \<rparr>;
                       n = uint column - uint x;
                       start = unat y * unat (fst (cellCount (p_s p))) + unat x
                   in
                     if column < x \<or> length (api_colorsForeground api1) < unat column then
                       Some (Fail OutOfRange (e1\<lparr> e_api := api1 \<rparr>))
                     else
                       let api2 = api1\<lparr> api_colorsForeground :=
                                    take (unat x) (api_colorsForeground api1)
                                      @ replicate (unat column - unat x) (fst (api_currentColor api1))
                                      @ drop (unat column) (api_colorsForeground api1) \<rparr>
                       in
                         if 0 < n \<and> length (p_backgroundBitmap p) < start + nat n then
                           Some (Fail OutOfRange (e1\<lparr> e_api := api2 \<rparr>))
                         else
                           Some (Ok (e1\<lparr>
                             e_api := api2\<lparr> api_lastPaintBufferLineCoord := (x, y) \<rparr>,
                             e_p := p\<lparr> p_backgroundBitmap :=
                               take start (p_backgroundBitmap p)
                                 @ replicate (nat n) (snd (api_currentColor api2))
                                 @ drop (start + nat n) (p_backgroundBitmap p) \<rparr> \<rparr>))))"

definition PaintBufferLine :: "nat \<Rightarrow> Shaper \<Rightarrow> (wchar_t list \<times> int) list \<Rightarrow> int \<times> int \<Rightarrow> AtlasEngine \<Rightarrow> AtlasEngine call option" where
  "PaintBufferLine fuel sh clusters coord e =
     map_option CATCH_RETURN (PaintBufferLine_body fuel sh clusters coord e)"

text \<open>
  \<^verbatim>\<open>PaintBufferGridLines\<close>. The sum of the target column and the length is computed
  in 64 bits without a sign.
\<close>

definition PaintBufferGridLines_body :: "nat \<Rightarrow> u32 \<Rightarrow> nat \<Rightarrow> int \<times> int \<Rightarrow> AtlasEngine \<Rightarrow> AtlasEngine res" where
  "PaintBufferGridLines_body lines colorref cchLine coordTarget e =
     (let cx = uint (fst (cellCount (p_s (e_p e))));
          cy = uint (snd (cellCount (p_s (e_p e))));
          y = (word_of_int (clamp (snd coordTarget) 0 cy) :: u16);
          from = (word_of_int (clamp (fst coordTarget) 0 (cx - 1)) :: u16);
          to = (of_nat (clamp (nat ((fst coordTarget + int cchLine) mod 2 ^ 64)) (unat from) (nat cx)) :: u16);
          fg = colorref OR 0xff000000
      in
        case read_at (p_rows (e_p e)) (unat y) of
          Inl err \<Rightarrow> Fail err e
        | Inr row \<Rightarrow>
            Ok (e\<lparr> e_p := (e_p e)\<lparr> p_rows := (p_rows (e_p e))[unat y :=
                  row\<lparr> gridLineRanges := gridLineRanges row
                         @ [\<lparr> lineKinds = lines, color = fg, colStart = from, colEnd = to \<rparr>] \<rparr>] \<rparr> \<rparr>))"

definition PaintBufferGridLines :: "nat \<Rightarrow> u32 \<Rightarrow> nat \<Rightarrow> int \<times> int \<Rightarrow> AtlasEngine \<Rightarrow> AtlasEngine call" where
  "PaintBufferGridLines lines colorref cchLine coordTarget e =
     CATCH_RETURN (PaintBufferGridLines_body lines colorref cchLine coordTarget e)"

text \<open>
  Modelled from the spec: the rectangle type and its union are declared in a header that
  is not part of the sources. A rectangle is (left, top, right, bottom); the dirty
  rectangle is the union of all touched regions, and an empty rectangle adds nothing.
\<close>

definition rect_empty :: "int \<times> int \<times> int \<times> int \<Rightarrow> bool" where
  "rect_empty r = (case r of (l, t, r, b) \<Rightarrow> \<not> (l < r \<and> t < b))"

definition rect_union :: "int \<times> int \<times> int \<times> int \<Rightarrow> int \<times> int \<times> int \<times> int \<Rightarrow> int \<times> int \<times> int \<times> int" where
  "rect_union a b =
     (if rect_empty b then a
      else if rect_empty a then b
      else (case a of (l1, t1, r1, b1) \<Rightarrow>
              (case b of (l2, t2, r2, b2) \<Rightarrow> (min l1 l2, min t1 t2, max r1 r2, max b1 b2))))"

text \<open>\<^verbatim>\<open>PaintSelection\<close>; \<open>rect\<close> is (left, top, right, bottom).\<close>

definition PaintSelection_body :: "nat \<Rightarrow> Shaper \<Rightarrow> int \<times> int \<times> int \<times> int \<Rightarrow> AtlasEngine \<Rightarrow> AtlasEngine res option" where
  "PaintSelection_body fuel sh rect e =
     (case flushBufferLine fuel sh e of
        None \<Rightarrow> None
      | Some (Fail err e1) \<Rightarrow> Some (Fail err e1)
      | Some (Ok e1) \<Rightarrow>
          (case rect of
             (left, top0, right, bottom) \<Rightarrow>
               let cx = uint (fst (cellCount (p_s (e_p e1))));
                   cy = uint (snd (cellCount (p_s (e_p e1))));
                   y = (word_of_int (clamp top0 0 cy) :: u16);
                   from = (word_of_int (clamp left 0 (cx - 1)) :: u16);
                   to = (word_of_int (clamp right (uint from) cx) :: u16)
               in
                 (case read_at (p_rows (e_p e1)) (unat y) of
                    Inl err \<Rightarrow> Some (Fail err e1)
                  | Inr row \<Rightarrow>
                      Some (Ok (e1\<lparr> e_p := (e_p e1)\<lparr>
                        p_rows := (p_rows (e_p e1))[unat y :=
                          row\<lparr> selectionFrom := from, selectionTo := to \<rparr>],
                        p_dirtyRect := rect_union (p_dirtyRect (e_p e1)) rect \<rparr> \<rparr>)))))"

definition PaintSelection :: "nat \<Rightarrow> Shaper \<Rightarrow> int \<times> int \<times> int \<times> int \<Rightarrow> AtlasEngine \<Rightarrow> AtlasEngine call option" where
  "PaintSelection fuel sh rect e = map_option CATCH_RETURN (PaintSelection_body fuel sh rect e)"

text \<open>
  The cursor options of a \<^verbatim>\<open>PaintCursor\<close> call. Modelled from the spec: the type, the
  invalid colour and the numbering of the cursor types (the vertical bar is 1) are
  declared in headers that are not part of the sources.
\<close>

record CursorOptions =
  coordCursor :: "int \<times> int"
  ulCursorHeightPercent :: u32
  fIsDoubleWidth :: bool
  isOn :: bool
  fUseColor :: bool
  optCursorColor :: u32
  optCursorType :: u32

definition INVALID_COLOR :: u32 where
  "INVALID_COLOR = 0xffffffff"

definition VerticalBar :: u32 where
  "VerticalBar = 1"

text \<open>
  \<^verbatim>\<open>PaintCursor\<close>. Writing the cursor settings goes through the write access of both
  snapshots and of their cursor sub-objects, which bumps the four generations.
\<close>

definition writeCursor :: "CursorSettings \<Rightarrow> Settings \<Rightarrow> Settings" where
  "writeCursor c st = st\<lparr> generation := generation st + 1,
                          cursorGeneration := cursorGeneration st + 1,
                          cursor := c \<rparr>"

definition PaintCursor_body :: "nat \<Rightarrow> Shaper \<Rightarrow> CursorOptions \<Rightarrow> AtlasEngine \<Rightarrow> AtlasEngine res option" where
  "PaintCursor_body fuel sh options e =
     (case flushBufferLine fuel sh e of
        None \<Rightarrow> None
      | Some (Fail err e1) \<Rightarrow> Some (Fail err e1)
      | Some (Ok e1) \<Rightarrow>
          let cachedOptions =
                \<lparr> cursorColor = (if fUseColor options then optCursorColor options OR 0xff000000
                                  else INVALID_COLOR),
                  cursorType = ucast (optCursorType options),
                  heightPercentage = ucast (ulCursorHeightPercent options) \<rparr>;
              e2 = (if cursor (api_s (e_api e1)) \<noteq> cachedOptions then
                      e1\<lparr> e_api := (e_api e1)\<lparr> api_s := writeCursor cachedOptions (api_s (e_api e1)) \<rparr>,
                          e_p := (e_p e1)\<lparr> p_s := writeCursor cachedOptions (p_s (e_p e1)) \<rparr> \<rparr>
                    else e1);
              e3 = (case api_invalidatedCursorArea (e_api e2) of
                      (left, top0, right, bottom) \<Rightarrow>
                        if left < right \<and> top0 < bottom then
                          e2\<lparr> e_p := (e_p e2)\<lparr> p_dirtyRect := rect_union (p_dirtyRect (e_p e2))
                                 (uint left, uint top0, uint right, uint bottom) \<rparr> \<rparr>
                        else e2)
          in
            if isOn options then
              let cx = uint (fst (cellCount (p_s (e_p e3))));
                  cy = uint (snd (cellCount (p_s (e_p e3))));
                  x = (word_of_int (clamp (fst (coordCursor options)) 0 (cx - 1)) :: u16);
                  y = (word_of_int (clamp (snd (coordCursor options)) 0 (cy - 1)) :: u16);
                  cursorWidth = 1 + (if fIsDoubleWidth options \<and> optCursorType options \<noteq> VerticalBar
                                     then 1 else 0);
                  right = (word_of_int (clamp (uint x + cursorWidth) 0 cx) :: u16);
                  bottom = (word_of_int (uint y + 1) :: u16)
              in
                Some (Ok (e3\<lparr> e_p := (e_p e3)\<lparr>
                  p_cursorRect := (x, y, right, bottom),
                  p_dirtyRect := rect_union (p_dirtyRect (e_p e3))
                    (uint x, uint y, uint right, uint bottom) \<rparr> \<rparr>))
            else Some (Ok e3))"

definition PaintCursor :: "nat \<Rightarrow> Shaper \<Rightarrow> CursorOptions \<Rightarrow> AtlasEngine \<Rightarrow> AtlasEngine call option" where
  "PaintCursor fuel sh options e = map_option CATCH_RETURN (PaintCursor_body fuel sh options e)"

section \<open>Auxiliary notions of the proofs\<close>




section \<open>Example states\<close>

text \<open>
  A grid of 80 by 24 cells of 8 by 16 pixels at 96 DPI, and a staged line of five
  characters that starts in column 10.
\<close>

definition exFont :: FontSettings where
  "exFont = \<lparr> cellSize = (8, 16), fontSizeInDIP = 12, dpi = 96, fontName = ''Consolas'' \<rparr>"

definition exSettings :: Settings where
  "exSettings =
     \<lparr> generation = 1, target = 1, fontGeneration = 1, font = exFont,
       cursorGeneration = 1,
       cursor = \<lparr> cursorColor = 0xffffffff, cursorType = 0, heightPercentage = 20 \<rparr>,
       miscGeneration = 1, backgroundColor = 0xff000000, cellCount = (80, 24) \<rparr>"

definition exApi :: ApiState where
  "exApi =
     \<lparr> api_s = exSettings,
       api_invalidatedCursorArea = invalidatedAreaNone,
       api_invalidatedRows = invalidatedRowsNone,
       api_scrollOffset = 0,
       api_dirtyRect = (0, 0, 0, 0),
       api_bufferLine = [0x68, 0x65, 0x6c, 0x6c, 0x6f],
       api_bufferLineColumn = [10, 11, 12, 13, 14, 15],
       api_colorsForeground = replicate 80 0xffffffff,
       api_currentColor = (0xffffffff, 0xff000000),
       api_attributes = (False, False),
       api_lastPaintBufferLineCoord = (10, 0),
       api_analysisResults = [],
       api_clusterMap = replicate 160 0,
       api_textProps = 160,
       api_glyphIndices = [75, 72, 79, 79, 82] @ replicate 251 0,
       api_glyphProps = 256,
       api_glyphAdvances = replicate 256 0,
       api_glyphOffsets = replicate 256 (0, 0),
       api_replacementCharacterFontFace = None,
       api_replacementCharacterGlyphIndex = 0,
       api_replacementCharacterLookedUp = False \<rparr>"



text \<open>
  The advance the columns of a cluster ask for, the advance buffer after the correction
  of one cluster, and what the loop establishes for a cluster it has corrected.
\<close>

definition expectedAdvance :: "RenderingPayload \<Rightarrow> ApiState \<Rightarrow> u32 \<Rightarrow> nat \<Rightarrow> nat \<Rightarrow> f32" where
  "expectedAdvance p api pos beg i =
     real_of_int (uint (api_bufferLineColumn api ! (unat pos + i))
       - uint (api_bufferLineColumn api ! (unat pos + beg))) * fst (p_cellSizeDIP p)"



text \<open>
  A complex run of three characters from text index 1 that the service shaped into two
  glyphs: the first two characters form one cluster, the third one the other.
\<close>

definition exAnalysis :: TextAnalysisSinkResult where
  "exAnalysis = \<lparr> textPosition = 1, textLength = 3, script = 0, shapes = 0, bidiLevel = 0 \<rparr>"


fun grown :: "nat \<Rightarrow> nat \<Rightarrow> nat" where
  "grown 0 n = n"
| "grown (Suc k) n = grown k (n + n div 2)"

text \<open>
  A service that needs room for 20 glyphs: with less it reports insufficient capacity,
  with more it delivers two glyphs for any text that is not empty.
\<close>

definition exShaper :: Shaper where
  "exShaper =
     \<lparr> MapCharacters = (\<lambda>f attrs text. (0, of_nat (length text), 1, Some 7)),
       GetTextComplexity = (\<lambda>text face. (0, True, of_nat (length text), map (\<lambda>c. c + 1) text)),
       AnalyzeScript = (\<lambda>text pos len.
         (0, [\<lparr> textPosition = pos, textLength = len, script = 0, shapes = 0, bidiLevel = 0 \<rparr>])),
       GetGlyphs = (\<lambda>text face a maxGlyphCount.
         if maxGlyphCount < 20 then (E_NOT_SUFFICIENT_BUFFER, [], [], 0)
         else if text = [] then (0, [], [], 0)
         else (0, [0, 0, 1], [40, 41], 2)),
       GetGlyphPlacements = (\<lambda>text clusterMap indices n face em a.
         (0, [15 / 2, 6], [(1, 2), (3, 4)])),
       GetGlyphIndices = (\<lambda>face codepoint. (0, 3)) \<rparr>"

text \<open>The scratch buffers of a grid one cell wide: the glyph buffers hold 19 elements.\<close>

definition exNarrowApi :: ApiState where
  "exNarrowApi = exApi\<lparr> api_clusterMap := replicate 4 0, api_textProps := 2,
                         api_glyphIndices := replicate 19 0, api_glyphProps := 19,
                         api_glyphAdvances := replicate 19 0,
                         api_glyphOffsets := replicate 19 (0, 0) \<rparr>"




















section \<open>Basic facts\<close>

lemma read_at_Inr: "read_at xs i = Inr v \<longleftrightarrow> i < length xs \<and> v = xs ! i"
  by (auto simp: read_at_def)

lemma read_at_Inl: "read_at xs i = Inl e \<longleftrightarrow> \<not> i < length xs \<and> e = OutOfRange"
  by (auto simp: read_at_def)

lemma length_store: "length (store out buf) = length buf"
  by (simp add: store_def)

section \<open>Simple segments\<close>








text \<open>
  The clusters the correction loop finds when it runs over the text indices \<open>is\<close> from
  the glyph \<open>prevCluster\<close> and the text index \<open>beg\<close>: each is the text range from \<open>beg\<close>
  to \<open>i\<close> and the glyph range from \<open>prevCluster\<close> to \<open>nextCluster\<close>, in this order.
\<close>

section \<open>Complex segments\<close>












text \<open>The size of a glyph scratch buffer after \<open>k\<close> rounds of growth.\<close>

section \<open>The growth-and-retry loop\<close>

lemma getGlyphs_grown:
  "retry < 8 \<Longrightarrow>
     \<exists>k. retry + k < 8 \<and>
       length (api_glyphIndices (snd (state_of (getGlyphs sh tx face a retry api))))
         = grown k (length (api_glyphIndices api))"
proof (induction sh tx face a retry api rule: getGlyphs.induct)
  case (1 sh tx face a retry api)
  obtain hr cm gi n where g: "GetGlyphs sh tx face a (of_nat (length (api_glyphIndices api))) = (hr, cm, gi, n)"
    by (cases "GetGlyphs sh tx face a (of_nat (length (api_glyphIndices api)))") auto
  let ?api1 = "api\<lparr> api_clusterMap := store cm (api_clusterMap api),
                        api_glyphIndices := store gi (api_glyphIndices api) \<rparr>"
  let ?size = "length (api_glyphIndices api) + length (api_glyphIndices api) div 2"
  show ?case
  proof (cases "hr = E_NOT_SUFFICIENT_BUFFER \<and> retry + 1 < 8 \<and> length (api_glyphIndices api) < ?size")
    case True
    then have r: "retry + 1 < 8" by simp
    have eq: "getGlyphs sh tx face a retry api =
        getGlyphs sh tx face a (retry + 1)
          (?api1\<lparr> api_glyphIndices := replicate ?size 0, api_glyphProps := ?size \<rparr>)"
      using True g by (subst getGlyphs.simps) (simp add: length_store Let_def)
    have c5: "hr = E_NOT_SUFFICIENT_BUFFER \<and> retry + 1 < 8"
      using True by simp
    have c7: "\<not> \<not> length (api_glyphIndices ?api1)
        < length (api_glyphIndices ?api1) + length (api_glyphIndices ?api1) div 2"
      using True by (simp add: length_store)
    from "1.IH" [OF g [symmetric] refl refl refl c5 refl c7 r]
    obtain k where k: "retry + 1 + k < 8"
      and len: "length (api_glyphIndices (snd (state_of (getGlyphs sh tx face a (retry + 1)
          (?api1\<lparr> api_glyphIndices := replicate ?size 0, api_glyphProps := ?size \<rparr>)))))
        = grown k ?size"
      by (auto simp: length_store)
    show ?thesis
      by (rule exI [of _ "Suc k"]) (use k len eq in simp)
  next
    case False
    then have "length (api_glyphIndices (snd (state_of (getGlyphs sh tx face a retry api))))
        = length (api_glyphIndices api)"
      using g by (subst getGlyphs.simps) (auto simp: length_store Let_def)
    then show ?thesis
      using "1.prems" by (intro exI [of _ 0]) simp
  qed
qed

text \<open>
  Claim C6, as amended. Let the service answer the glyph query of call number \<open>retry + 1\<close>
  with the status \<open>hr\<close>. If it reports insufficient capacity, fewer than eight calls have
  been made and the glyph buffers hold at least two elements, the glyph index and glyph
  property buffers are replaced by buffers of the previous size plus half of it, rounded
  down (strictly larger, and at least one and a half times the previous size less one
  half), and the query is repeated. If the eighth call reports insufficient capacity,
  or any call reports another failure, the failure is raised at once, with no growth and
  no further call. A success ends the loop. From the first call on the buffers grow at
  most seven times, so the service is asked at most eight times.
\<close>

theorem getGlyphs_growth_and_retry:
  assumes g: "GetGlyphs sh tx face a (of_nat (length (api_glyphIndices api))) = (hr, cm, gi, n)"
  shows "(hr = E_NOT_SUFFICIENT_BUFFER \<and> retry + 1 < 8 \<and> 2 \<le> length (api_glyphIndices api) \<longrightarrow>
            getGlyphs sh tx face a retry api =
              getGlyphs sh tx face a (retry + 1)
                (api\<lparr> api_clusterMap := store cm (api_clusterMap api),
                      api_glyphIndices := replicate
                        (length (api_glyphIndices api) + length (api_glyphIndices api) div 2) 0,
                      api_glyphProps :=
                        length (api_glyphIndices api) + length (api_glyphIndices api) div 2 \<rparr>) \<and>
            length (api_glyphIndices api)
              < length (api_glyphIndices api) + length (api_glyphIndices api) div 2 \<and>
            3 * length (api_glyphIndices api)
              \<le> 2 * (length (api_glyphIndices api) + length (api_glyphIndices api) div 2) + 1) \<and>
         (hr = E_NOT_SUFFICIENT_BUFFER \<and> 8 \<le> retry + 1 \<longrightarrow>
            getGlyphs sh tx face a retry api =
              Fail (Failed hr) (n, api\<lparr> api_clusterMap := store cm (api_clusterMap api),
                                      api_glyphIndices := store gi (api_glyphIndices api) \<rparr>)) \<and>
         (FAILED hr \<and> hr \<noteq> E_NOT_SUFFICIENT_BUFFER \<longrightarrow>
            getGlyphs sh tx face a retry api =
              Fail (Failed hr) (n, api\<lparr> api_clusterMap := store cm (api_clusterMap api),
                                      api_glyphIndices := store gi (api_glyphIndices api) \<rparr>)) \<and>
         (\<not> FAILED hr \<longrightarrow>
            getGlyphs sh tx face a retry api =
              Ok (n, api\<lparr> api_clusterMap := store cm (api_clusterMap api),
                          api_glyphIndices := store gi (api_glyphIndices api) \<rparr>)) \<and>
         (retry < 8 \<longrightarrow>
            (\<exists>k. retry + k < 8 \<and>
               length (api_glyphIndices (snd (state_of (getGlyphs sh tx face a retry api))))
                 = grown k (length (api_glyphIndices api))))"
proof -
  have neg: "FAILED E_NOT_SUFFICIENT_BUFFER"
    by (simp add: FAILED_def E_NOT_SUFFICIENT_BUFFER_def)
  have grow: "hr = E_NOT_SUFFICIENT_BUFFER \<and> retry + 1 < 8 \<and> 2 \<le> length (api_glyphIndices api) \<longrightarrow>
      getGlyphs sh tx face a retry api =
        getGlyphs sh tx face a (retry + 1)
          (api\<lparr> api_clusterMap := store cm (api_clusterMap api),
                api_glyphIndices := replicate
                  (length (api_glyphIndices api) + length (api_glyphIndices api) div 2) 0,
                api_glyphProps :=
                  length (api_glyphIndices api) + length (api_glyphIndices api) div 2 \<rparr>)"
    using g by (subst getGlyphs.simps) (auto simp: length_store Let_def)
  have arith: "2 \<le> length (api_glyphIndices api) \<longrightarrow>
      length (api_glyphIndices api)
        < length (api_glyphIndices api) + length (api_glyphIndices api) div 2 \<and>
      3 * length (api_glyphIndices api)
        \<le> 2 * (length (api_glyphIndices api) + length (api_glyphIndices api) div 2) + 1"
    by arith
  have last: "hr = E_NOT_SUFFICIENT_BUFFER \<and> 8 \<le> retry + 1 \<longrightarrow>
      getGlyphs sh tx face a retry api =
        Fail (Failed hr) (n, api\<lparr> api_clusterMap := store cm (api_clusterMap api),
                                api_glyphIndices := store gi (api_glyphIndices api) \<rparr>)"
    using g neg by (subst getGlyphs.simps) (auto simp: Let_def)
  have other: "FAILED hr \<and> hr \<noteq> E_NOT_SUFFICIENT_BUFFER \<longrightarrow>
      getGlyphs sh tx face a retry api =
        Fail (Failed hr) (n, api\<lparr> api_clusterMap := store cm (api_clusterMap api),
                                api_glyphIndices := store gi (api_glyphIndices api) \<rparr>)"
    using g by (subst getGlyphs.simps) (auto simp: Let_def)
  have good: "\<not> FAILED hr \<longrightarrow>
      getGlyphs sh tx face a retry api =
        Ok (n, api\<lparr> api_clusterMap := store cm (api_clusterMap api),
                    api_glyphIndices := store gi (api_glyphIndices api) \<rparr>)"
    using g neg by (subst getGlyphs.simps) (auto simp: Let_def)
  have bound: "retry < 8 \<longrightarrow>
      (\<exists>k. retry + k < 8 \<and>
         length (api_glyphIndices (snd (state_of (getGlyphs sh tx face a retry api))))
           = grown k (length (api_glyphIndices api)))"
    using getGlyphs_grown by blast
  from grow arith last other good bound show ?thesis
    by blast
qed

theorem getGlyphs_growth_and_retry_witness:
  "getGlyphs exShaper [0x915, 0x94d, 0x937] 7 exAnalysis 0 exNarrowApi =
     getGlyphs exShaper [0x915, 0x94d, 0x937] 7 exAnalysis 1
       (exNarrowApi\<lparr> api_clusterMap := replicate 4 0,
                      api_glyphIndices := replicate 28 0, api_glyphProps := 28 \<rparr>) \<and>
   getGlyphs exShaper [0x915, 0x94d, 0x937] 7 exAnalysis 1
       (exNarrowApi\<lparr> api_clusterMap := replicate 4 0,
                      api_glyphIndices := replicate 28 0, api_glyphProps := 28 \<rparr>) =
     Ok (2, exNarrowApi\<lparr> api_clusterMap := [0, 0, 1, 0],
                          api_glyphIndices := [40, 41] @ replicate 26 0, api_glyphProps := 28 \<rparr>)"
proof -
  have g0: "GetGlyphs exShaper [0x915, 0x94d, 0x937] 7 exAnalysis
      (of_nat (length (api_glyphIndices exNarrowApi))) = (E_NOT_SUFFICIENT_BUFFER, [], [], 0)"
    by (simp add: exShaper_def exNarrowApi_def)
  have g1: "GetGlyphs exShaper [0x915, 0x94d, 0x937] 7 exAnalysis
      (of_nat (length (api_glyphIndices (exNarrowApi\<lparr> api_clusterMap := replicate 4 0,
         api_glyphIndices := replicate 28 0, api_glyphProps := 28 \<rparr>)))) = (0, [0, 0, 1], [40, 41], 2)"
    by (simp add: exShaper_def)
  have first: "getGlyphs exShaper [0x915, 0x94d, 0x937] 7 exAnalysis 0 exNarrowApi =
     getGlyphs exShaper [0x915, 0x94d, 0x937] 7 exAnalysis 1
       (exNarrowApi\<lparr> api_clusterMap := replicate 4 0,
                      api_glyphIndices := replicate 28 0, api_glyphProps := 28 \<rparr>)"
    using getGlyphs_growth_and_retry [OF g0, of 0]
    by (simp add: exNarrowApi_def store_def)
  have second: "getGlyphs exShaper [0x915, 0x94d, 0x937] 7 exAnalysis 1
       (exNarrowApi\<lparr> api_clusterMap := replicate 4 0,
                      api_glyphIndices := replicate 28 0, api_glyphProps := 28 \<rparr>) =
     Ok (2, exNarrowApi\<lparr> api_clusterMap := [0, 0, 1, 0],
                          api_glyphIndices := [40, 41] @ replicate 26 0, api_glyphProps := 28 \<rparr>)"
    using getGlyphs_growth_and_retry [OF g1, of 1]
    by (simp add: FAILED_def store_def exNarrowApi_def)
  from first second show ?thesis by blast
qed

text \<open>
  The growth of an odd size falls short of one and a half times the size: a buffer of 19
  elements, for which the service reports insufficient capacity, grows to 28.
\<close>

theorem getGlyphs_growth_counterexample:
  "fst (GetGlyphs exShaper [0x915, 0x94d, 0x937] 7 exAnalysis
         (of_nat (length (api_glyphIndices exNarrowApi)))) = E_NOT_SUFFICIENT_BUFFER \<and>
   length (api_glyphIndices exNarrowApi) = 19 \<and>
   getGlyphs exShaper [0x915, 0x94d, 0x937] 7 exAnalysis 0 exNarrowApi =
     Ok (2, exNarrowApi\<lparr> api_clusterMap := [0, 0, 1, 0],
                          api_glyphIndices := [40, 41] @ replicate 26 0, api_glyphProps := 28 \<rparr>) \<and>
   \<not> 3 * length (api_glyphIndices exNarrowApi)
       \<le> 2 * length (api_glyphIndices (snd (state_of
           (getGlyphs exShaper [0x915, 0x94d, 0x937] 7 exAnalysis 0 exNarrowApi))))"
proof -
  have run: "getGlyphs exShaper [0x915, 0x94d, 0x937] 7 exAnalysis 0 exNarrowApi =
     Ok (2, exNarrowApi\<lparr> api_clusterMap := [0, 0, 1, 0],
                          api_glyphIndices := [40, 41] @ replicate 26 0, api_glyphProps := 28 \<rparr>)"
    apply (subst getGlyphs.simps)
    apply (simp add: exShaper_def exNarrowApi_def store_def E_NOT_SUFFICIENT_BUFFER_def Let_def)
    apply (subst getGlyphs.simps)
    apply (simp add: exShaper_def FAILED_def store_def E_NOT_SUFFICIENT_BUFFER_def Let_def)
    done
  show ?thesis
    unfolding run
    by (simp add: exShaper_def exNarrowApi_def)
qed

text \<open>
  The state of the replacement cache once the lookup is behind it: the cache as it is
  when the lookup was made before, the outcome of the lookup otherwise.
\<close>

section \<open>The replacement fallback\<close>






text \<open>
  The invariant of a row: the four glyph sequences are equally long, and the mapping
  ranges follow one another from glyph 0 to the number of glyphs. \<open>chained k ms n\<close> holds
  when the ranges \<open>ms\<close> start at \<open>k\<close>, each starts where the one before it ends, none ends
  before it starts, and the last one ends at \<open>n\<close>.
\<close>

section \<open>The row invariant\<close>






























text \<open>
  A service that reports the failure \<^verbatim>\<open>E_FAIL\<close> for every mapping query, and the engine
  after a paint call without clusters in column 5 of row 0: no code unit is pending, the
  column sequence holds the past-the-end column.
\<close>

section \<open>The staging buffer after a flush\<close>





text \<open>
  The scroll offset that takes effect at frame start, the Row Store after a frame start
  that scrolls by \<open>k\<close> rows with nothing else invalid, and the background bitmap after it.
\<close>

section \<open>Scrolling at frame start\<close>























end
